theory Spec2Isabelle
  imports Main "HOL-Library.Sublist"
begin

section \<open>Values exchanged with the provider\<close>

text \<open>
  The values the services read from a response body and hand back to their callers
  are what Python's JSON decoder produces: \<open>None\<close>, booleans, integers, strings,
  lists and dicts. A dict is an association list with distinct keys, read with
  \<open>map_of\<close>. Numbers are integers; a \<open>char\<close> stands for one character of a
  Python string, and the text handled is ASCII.
\<close>

datatype json =
    JNull
  | JBool bool
  | JInt int
  | JStr string
  | JArr "json list"
  | JObj "(string \<times> json) list"

text \<open>Python's truth value of such a value, as tested by \<open>not x\<close> and \<open>if x\<close>.\<close>

fun truthy :: "json \<Rightarrow> bool" where
  "truthy JNull = False"
| "truthy (JBool b) = b"
| "truthy (JInt n) = (n \<noteq> 0)"
| "truthy (JStr s) = (s \<noteq> [])"
| "truthy (JArr xs) = (xs \<noteq> [])"
| "truthy (JObj kvs) = (kvs \<noteq> [])"

text \<open>\<open>d.get(k, dflt)\<close> on a dict.\<close>

definition dict_get :: "(string \<times> json) list \<Rightarrow> string \<Rightarrow> json \<Rightarrow> json" where
  "dict_get d k dflt = (case map_of d k of None \<Rightarrow> dflt | Some v \<Rightarrow> v)"

text \<open>
  The right operand of \<open>current_time + expires_in\<close>: an integer, or a boolean
  (Python counts \<open>True\<close> as 1); every other value raises \<open>TypeError\<close>.
\<close>

fun json_num :: "json \<Rightarrow> int option" where
  "json_num (JInt n) = Some n"
| "json_num (JBool b) = Some (if b then 1 else 0)"
| "json_num v = None"

text \<open>
  The message of the \<open>AttributeError\<close> that \<open>result.get\<close> raises when the decoded
  body is not a dict.
\<close>

fun type_name :: "json \<Rightarrow> string" where
  "type_name JNull = ''NoneType''"
| "type_name (JBool b) = ''bool''"
| "type_name (JInt n) = ''int''"
| "type_name (JStr s) = ''str''"
| "type_name (JArr xs) = ''list''"
| "type_name (JObj kvs) = ''dict''"

definition no_get_msg :: "json \<Rightarrow> string" where
  "no_get_msg v = [CHR 0x27] @ type_name v @ [CHR 0x27] @ '' object has no attribute ''
     @ [CHR 0x27] @ ''get'' @ [CHR 0x27]"

section \<open>HTTP requests and their outcomes\<close>

datatype http_method = GET | POST

datatype endpoint =
    AUTH_ENDPOINT
  | AIRPORT_SEARCH_ENDPOINT
  | FLIGHT_SEARCH_ENDPOINT
  | CHECKIN_LINKS_ENDPOINT
  | HOTEL_OFFERS_ENDPOINT
  | HOTELS_BY_CITY_ENDPOINT

text \<open>
  A value of the form-data or query-parameter dict: a string, an integer, or
  \<open>None\<close> (a credential whose environment variable is not set).
\<close>

datatype pval = PStr string | PInt int | PNone

text \<open>
  A header value: a fixed string, or \<open>f'Bearer {access_token}'\<close>, kept as the token
  it is built from.
\<close>

datatype hval = HStr string | Bearer json

record http_request =
  req_method :: http_method
  req_url :: endpoint
  req_headers :: "(string \<times> hval) list"
  req_fields :: "(string \<times> pval) list"

text \<open>
  What one \<open>session.post\<close> or \<open>session.get\<close> does: it raises (the message is
  \<open>str(e)\<close>), or it answers with a status; \<open>await response.json()\<close> and
  \<open>await response.text()\<close> then each return a value or raise.
\<close>

datatype http_outcome =
    Raised string
  | Answered int "string + json" "string + string"

type_synonym transport = "http_request \<Rightarrow> http_outcome"

section \<open>The token cache\<close>

record service =
  client_id :: "string option"
  client_secret :: "string option"
  access_token :: json
  token_expires_at :: int

definition init_service :: "string option \<Rightarrow> string option \<Rightarrow> service" where
  "init_service cid secret =
     \<lparr>client_id = cid, client_secret = secret, access_token = JNull, token_expires_at = 0\<rparr>"

definition opt_field :: "string option \<Rightarrow> pval" where
  "opt_field x = (case x of None \<Rightarrow> PNone | Some s \<Rightarrow> PStr s)"

definition token_request :: "service \<Rightarrow> http_request" where
  "token_request s =
     \<lparr>req_method = POST, req_url = AUTH_ENDPOINT,
      req_headers = [(''Content-Type'', HStr ''application/x-www-form-urlencoded'')],
      req_fields = [(''grant_type'', PStr ''client_credentials''),
                    (''client_id'', opt_field (client_id s)),
                    (''client_secret'', opt_field (client_secret s))]\<rparr>"

text \<open>
  \<open>_ensure_token\<close> of both service classes (the two bodies are the same). It returns
  the method's result (\<open>JNull\<close> is \<open>None\<close>), the service with its two cached fields,
  and the requests it issued, in order.
\<close>

definition ensure_token :: "transport \<Rightarrow> int \<Rightarrow> service \<Rightarrow> json \<times> service \<times> http_request list" where
  "ensure_token http current_time s =
     (if \<not> truthy (access_token s) \<or> current_time \<ge> token_expires_at s then
        (let rq = token_request s in
         case http rq of
           Raised e \<Rightarrow> (JNull, s, [rq])
         | Answered status js body_text \<Rightarrow>
             if status = 200 then
               (case js of
                  Inl e \<Rightarrow> (JNull, s, [rq])
                | Inr (JObj result) \<Rightarrow>
                    (let s1 = s\<lparr>access_token := dict_get result ''access_token'' JNull\<rparr>;
                         expires_in = dict_get result ''expires_in'' (JInt 1800)
                     in case json_num expires_in of
                          None \<Rightarrow> (JNull, s1, [rq])
                        | Some n \<Rightarrow>
                            (let s2 = s1\<lparr>token_expires_at := current_time + n - 60\<rparr>
                             in (access_token s2, s2, [rq])))
                | Inr v \<Rightarrow> (JNull, s, [rq]))
             else (JNull, s, [rq]))
      else (access_token s, s, []))"

text \<open>
  The failures of the exchange that are a non-200 status, a transport exception or
  a body that does not decode to a dict.
\<close>

fun exchange_failed :: "http_outcome \<Rightarrow> bool" where
  "exchange_failed (Raised e) = True"
| "exchange_failed (Answered status (Inl e) body_text) = True"
| "exchange_failed (Answered status (Inr (JObj result)) body_text) = (status \<noteq> 200)"
| "exchange_failed (Answered status (Inr v) body_text) = True"

section \<open>Text helpers\<close>

text \<open>
  \<open>str.lower()\<close> and \<open>str.upper()\<close> on ASCII text: the 26 letters change case,
  every other ASCII character is kept. Python maps characters beyond ASCII by the
  Unicode tables (\<open>U+00FC\<close> becomes \<open>U+00DC\<close>, \<open>U+00DF\<close> becomes \<open>SS\<close>); these
  functions leave such a character as it is, so they stand for the program on ASCII
  text only, and what is proved of the case of a user's text is proved for ASCII
  text (\<open>is_ascii\<close>).
\<close>

definition is_ascii :: "string \<Rightarrow> bool" where
  "is_ascii s = (\<forall>c \<in> set s. (of_char c :: nat) < 128)"

definition lower_char :: "char \<Rightarrow> char" where
  "lower_char c =
     (let n = (of_char c :: nat) in if 65 \<le> n \<and> n \<le> 90 then char_of (n + 32) else c)"

definition upper_char :: "char \<Rightarrow> char" where
  "upper_char c =
     (let n = (of_char c :: nat) in if 97 \<le> n \<and> n \<le> 122 then char_of (n - 32) else c)"

definition lower :: "string \<Rightarrow> string" where
  "lower s = map lower_char s"

definition upper :: "string \<Rightarrow> string" where
  "upper s = map upper_char s"

text \<open>\<open>sep.join(xs)\<close>.\<close>

fun join :: "string \<Rightarrow> string list \<Rightarrow> string" where
  "join sep [] = []"
| "join sep [x] = x"
| "join sep (x # y # ys) = x @ sep @ join sep (y # ys)"

text \<open>\<open>str(b)\<close> for a boolean.\<close>

definition str_bool :: "bool \<Rightarrow> string" where
  "str_bool b = (if b then ''True'' else ''False'')"

text \<open>\<open>str(n)\<close> for a non-negative integer: its decimal digits.\<close>

fun str_nat :: "nat \<Rightarrow> string" where
  "str_nat n = (if n < 10 then [char_of (48 + n)] else str_nat (n div 10) @ [char_of (48 + n mod 10)])"

text \<open>The truth value of an optional string argument, and of an optional list.\<close>

definition given :: "string option \<Rightarrow> bool" where
  "given x = (case x of None \<Rightarrow> False | Some s \<Rightarrow> s \<noteq> [])"

definition given_list :: "string list option \<Rightarrow> bool" where
  "given_list x = (case x of None \<Rightarrow> False | Some xs \<Rightarrow> xs \<noteq> [])"

section \<open>The provider clients\<close>

text \<open>
  \<open>len(x)\<close> is defined on strings, lists and dicts; on any other value it raises
  \<open>TypeError\<close> with the message below.
\<close>

fun has_len :: "json \<Rightarrow> bool" where
  "has_len (JStr s) = True"
| "has_len (JArr xs) = True"
| "has_len (JObj kvs) = True"
| "has_len v = False"

definition no_len_msg :: "json \<Rightarrow> string" where
  "no_len_msg v = ''object of type '' @ [CHR 0x27] @ type_name v @ [CHR 0x27] @ '' has no len()''"

definition get_request :: "endpoint \<Rightarrow> json \<Rightarrow> (string \<times> pval) list \<Rightarrow> http_request" where
  "get_request url token params =
     \<lparr>req_method = GET, req_url = url,
      req_headers = [(''Authorization'', Bearer token)],
      req_fields = params\<rparr>"

text \<open>The dict \<open>{"error": msg, "data": []}\<close>.\<close>

definition error_result :: "string \<Rightarrow> json" where
  "error_result msg = JObj [(''error'', JStr msg), (''data'', JArr [])]"

text \<open>
  Each search returns its Python result, the service after the call, and the requests
  issued in order. \<open>AmadeusService.search_airports\<close>:
\<close>

definition airport_params :: "string \<Rightarrow> string \<Rightarrow> (string \<times> pval) list" where
  "airport_params keyword subtype = [(''keyword'', PStr keyword), (''subType'', PStr subtype)]"

definition search_airports ::
  "transport \<Rightarrow> int \<Rightarrow> service \<Rightarrow> string \<Rightarrow> string \<Rightarrow> json \<times> service \<times> http_request list" where
  "search_airports http current_time s keyword subtype =
     (case ensure_token http current_time s of (token, s', sent) \<Rightarrow>
        if \<not> truthy token then (JArr [], s', sent)
        else
          (let params = airport_params keyword subtype;
               rq = get_request AIRPORT_SEARCH_ENDPOINT token params
           in case http rq of
                Raised e \<Rightarrow> (JArr [], s', sent @ [rq])
              | Answered status js body_text \<Rightarrow>
                  if status = 200 then
                    (case js of
                       Inl e \<Rightarrow> (JArr [], s', sent @ [rq])
                     | Inr (JObj result) \<Rightarrow>
                         (let airports = dict_get result ''data'' (JArr [])
                          in if has_len airports then (airports, s', sent @ [rq])
                             else (JArr [], s', sent @ [rq]))
                     | Inr v \<Rightarrow> (JArr [], s', sent @ [rq]))
                  else (JArr [], s', sent @ [rq])))"

text \<open>\<open>AmadeusService.search_flights\<close>:\<close>

definition flight_params ::
  "string \<Rightarrow> string \<Rightarrow> string \<Rightarrow> int \<Rightarrow> int \<Rightarrow> (string \<times> pval) list" where
  "flight_params origin destination departure_date adults max_results =
     [(''originLocationCode'', PStr origin),
      (''destinationLocationCode'', PStr destination),
      (''departureDate'', PStr departure_date),
      (''adults'', PInt adults),
      (''max'', PInt max_results)]"

definition search_flights ::
  "transport \<Rightarrow> int \<Rightarrow> service \<Rightarrow> string \<Rightarrow> string \<Rightarrow> string \<Rightarrow> int \<Rightarrow> int
     \<Rightarrow> json \<times> service \<times> http_request list" where
  "search_flights http current_time s origin destination departure_date adults max_results =
     (case ensure_token http current_time s of (token, s', sent) \<Rightarrow>
        if \<not> truthy token then (error_result ''Unable to get access token'', s', sent)
        else
          (let params = flight_params origin destination departure_date adults max_results;
               rq = get_request FLIGHT_SEARCH_ENDPOINT token params
           in case http rq of
                Raised e \<Rightarrow> (error_result e, s', sent @ [rq])
              | Answered status js body_text \<Rightarrow>
                  if status = 200 then
                    (case js of
                       Inl e \<Rightarrow> (error_result e, s', sent @ [rq])
                     | Inr (JObj result) \<Rightarrow>
                         (let flights = dict_get result ''data'' (JArr []);
                              dictionaries = dict_get result ''dictionaries'' (JObj [])
                          in if has_len flights
                             then (JObj [(''data'', flights), (''dictionaries'', dictionaries)],
                                   s', sent @ [rq])
                             else (error_result (no_len_msg flights), s', sent @ [rq]))
                     | Inr v \<Rightarrow> (error_result (no_get_msg v), s', sent @ [rq]))
                  else
                    (case body_text of
                       Inl e \<Rightarrow> (error_result e, s', sent @ [rq])
                     | Inr error_text \<Rightarrow> (error_result error_text, s', sent @ [rq]))))"

text \<open>\<open>AmadeusService.get_flight_checkin_links\<close>:\<close>

definition checkin_params :: "string \<Rightarrow> (string \<times> pval) list" where
  "checkin_params airline_code = [(''airlineCode'', PStr airline_code)]"

definition get_flight_checkin_links ::
  "transport \<Rightarrow> int \<Rightarrow> service \<Rightarrow> string \<Rightarrow> json \<times> service \<times> http_request list" where
  "get_flight_checkin_links http current_time s airline_code =
     (case ensure_token http current_time s of (token, s', sent) \<Rightarrow>
        if \<not> truthy token then (JArr [], s', sent)
        else
          (let params = checkin_params airline_code;
               rq = get_request CHECKIN_LINKS_ENDPOINT token params
           in case http rq of
                Raised e \<Rightarrow> (JArr [], s', sent @ [rq])
              | Answered status js body_text \<Rightarrow>
                  if status = 200 then
                    (case js of
                       Inl e \<Rightarrow> (JArr [], s', sent @ [rq])
                     | Inr (JObj result) \<Rightarrow>
                         (let links = dict_get result ''data'' (JArr [])
                          in if has_len links then (links, s', sent @ [rq])
                             else (JArr [], s', sent @ [rq]))
                     | Inr v \<Rightarrow> (JArr [], s', sent @ [rq]))
                  else (JArr [], s', sent @ [rq])))"

text \<open>\<open>HotelService.search_hotels_by_city\<close>: the query parameters, then the call.\<close>

definition hotels_by_city_params ::
  "string \<Rightarrow> int \<Rightarrow> string \<Rightarrow> string list option \<Rightarrow> string list option
     \<Rightarrow> string list option \<Rightarrow> string \<Rightarrow> (string \<times> pval) list" where
  "hotels_by_city_params city_code radius radius_unit chain_codes amenities ratings hotel_source =
     [(''cityCode'', PStr city_code), (''radius'', PInt radius),
      (''radiusUnit'', PStr radius_unit), (''hotelSource'', PStr hotel_source)]
     @ (if given_list chain_codes then [(''chainCodes'', PStr (join '','' (the chain_codes)))] else [])
     @ (if given_list amenities then [(''amenities'', PStr (join '','' (the amenities)))] else [])
     @ (if given_list ratings then [(''ratings'', PStr (join '','' (the ratings)))] else [])"

definition search_hotels_by_city ::
  "transport \<Rightarrow> int \<Rightarrow> service \<Rightarrow> string \<Rightarrow> int \<Rightarrow> string \<Rightarrow> string list option
     \<Rightarrow> string list option \<Rightarrow> string list option \<Rightarrow> string
     \<Rightarrow> json \<times> service \<times> http_request list" where
  "search_hotels_by_city http current_time s city_code radius radius_unit chain_codes amenities
       ratings hotel_source =
     (case ensure_token http current_time s of (token, s', sent) \<Rightarrow>
        if \<not> truthy token then (error_result ''Unable to get access token'', s', sent)
        else
          (let params = hotels_by_city_params city_code radius radius_unit chain_codes amenities
                          ratings hotel_source;
               rq = get_request HOTELS_BY_CITY_ENDPOINT token params
           in case http rq of
                Raised e \<Rightarrow> (error_result e, s', sent @ [rq])
              | Answered status js body_text \<Rightarrow>
                  if status = 200 then
                    (case js of
                       Inl e \<Rightarrow> (error_result e, s', sent @ [rq])
                     | Inr (JObj result) \<Rightarrow>
                         (let hotels = dict_get result ''data'' (JArr []);
                              meta = dict_get result ''meta'' (JObj [])
                          in if has_len hotels
                             then (JObj [(''data'', hotels), (''meta'', meta)], s', sent @ [rq])
                             else (error_result (no_len_msg hotels), s', sent @ [rq]))
                     | Inr v \<Rightarrow> (error_result (no_get_msg v), s', sent @ [rq]))
                  else
                    (case body_text of
                       Inl e \<Rightarrow> (error_result e, s', sent @ [rq])
                     | Inr error_text \<Rightarrow> (error_result error_text, s', sent @ [rq]))))"

text \<open>\<open>HotelService.search_hotel_offers\<close>: the query parameters, then the call.\<close>

definition hotel_offers_params ::
  "string list \<Rightarrow> string \<Rightarrow> string option \<Rightarrow> int \<Rightarrow> int \<Rightarrow> string option \<Rightarrow> string option
     \<Rightarrow> string option \<Rightarrow> bool \<Rightarrow> bool \<Rightarrow> (string \<times> pval) list" where
  "hotel_offers_params hotel_ids check_in_date check_out_date adults room_quantity price_range
       currency board_type include_closed best_rate_only =
     [(''hotelIds'', PStr (join '','' hotel_ids)),
      (''checkInDate'', PStr check_in_date),
      (''adults'', PInt adults),
      (''roomQuantity'', PInt room_quantity),
      (''bestRateOnly'', PStr (lower (str_bool best_rate_only)))]
     @ (if given check_out_date then [(''checkOutDate'', PStr (the check_out_date))] else [])
     @ (if given price_range \<and> given currency
        then [(''priceRange'', PStr (the price_range)), (''currency'', PStr (the currency))]
        else [])
     @ (if given board_type then [(''boardType'', PStr (the board_type))] else [])
     @ (if include_closed then [(''includeClosed'', PStr (lower (str_bool include_closed)))]
        else [])"

definition search_hotel_offers ::
  "transport \<Rightarrow> int \<Rightarrow> service \<Rightarrow> string list \<Rightarrow> string \<Rightarrow> string option \<Rightarrow> int \<Rightarrow> int
     \<Rightarrow> string option \<Rightarrow> string option \<Rightarrow> string option \<Rightarrow> bool \<Rightarrow> bool
     \<Rightarrow> json \<times> service \<times> http_request list" where
  "search_hotel_offers http current_time s hotel_ids check_in_date check_out_date adults
       room_quantity price_range currency board_type include_closed best_rate_only =
     (case ensure_token http current_time s of (token, s', sent) \<Rightarrow>
        if \<not> truthy token then (error_result ''Unable to get access token'', s', sent)
        else
          (let params = hotel_offers_params hotel_ids check_in_date check_out_date adults
                          room_quantity price_range currency board_type include_closed
                          best_rate_only;
               rq = get_request HOTEL_OFFERS_ENDPOINT token params
           in case http rq of
                Raised e \<Rightarrow> (error_result e, s', sent @ [rq])
              | Answered status js body_text \<Rightarrow>
                  if status = 200 then
                    (case js of
                       Inl e \<Rightarrow> (error_result e, s', sent @ [rq])
                     | Inr (JObj result) \<Rightarrow>
                         (let hotels = dict_get result ''data'' (JArr [])
                          in if has_len hotels
                             then (JObj [(''data'', hotels)], s', sent @ [rq])
                             else (error_result (no_len_msg hotels), s', sent @ [rq]))
                     | Inr v \<Rightarrow> (error_result (no_get_msg v), s', sent @ [rq]))
                  else
                    (case body_text of
                       Inl e \<Rightarrow> (error_result e, s', sent @ [rq])
                     | Inr error_text \<Rightarrow> (error_result error_text, s', sent @ [rq]))))"

text \<open>
  The outcomes of a search request that are failures, with the message of each: the
  text of the exception raised by the transport or while the body is decoded and
  read, or the body text of a non-200 answer.
\<close>

fun search_failure :: "http_outcome \<Rightarrow> string option" where
  "search_failure (Raised e) = Some e"
| "search_failure (Answered status js body_text) =
     (if status = 200 then
        (case js of
           Inl e \<Rightarrow> Some e
         | Inr (JObj result) \<Rightarrow>
             (let records = dict_get result ''data'' (JArr [])
              in if has_len records then None else Some (no_len_msg records))
         | Inr v \<Rightarrow> Some (no_get_msg v))
      else (case body_text of Inl e \<Rightarrow> Some e | Inr error_text \<Rightarrow> Some error_text))"

text \<open>
  A result object with a non-empty \<open>error\<close> string and an empty \<open>data\<close> list.
\<close>

fun is_error_result :: "json \<Rightarrow> bool" where
  "is_error_result (JObj d) =
     (case map_of d ''error'' of
        Some (JStr msg) \<Rightarrow> msg \<noteq> [] \<and> map_of d ''data'' = Some (JArr [])
      | _ \<Rightarrow> False)"
| "is_error_result v = False"

section \<open>City lookup of the hotel agent\<close>

definition HOTEL_ID_MAPPING :: "(string \<times> string list) list" where
  "HOTEL_ID_MAPPING =
     [(''london'', [''MCLONGHM'', ''HSLONROT'']),
      (''lon'', [''MCLONGHM'', ''HSLONROT'']),
      (''newyork'', [''NYNYCTSC'', ''NYCNYCHM'']),
      (''nyc'', [''NYNYCTSC'', ''NYCNYCHM'']),
      (''new york'', [''NYNYCTSC'', ''NYCNYCHM'']),
      (''paris'', [''PARPARHT'', ''HSPARPDG'']),
      (''par'', [''PARPARHT'', ''HSPARPDG'']),
      (''tokyo'', [''TYOPACTH'', ''TYOTYOKH'']),
      (''tyo'', [''TYOPACTH'', ''TYOTYOKH'']),
      (''beijing'', [''PEKPEKFS'', ''PEKBEKRG'']),
      (''pek'', [''PEKPEKFS'', ''PEKBEKRG'']),
      (''shanghai'', [''SHAPUDHD'', ''SHAPEKRG'']),
      (''sha'', [''SHAPUDHD'', ''SHAPEKRG'']),
      (''hongkong'', [''HKGHKGSH'', ''HKGHKGHR'']),
      (''hkg'', [''HKGHKGSH'', ''HKGHKGHR'']),
      (''hong kong'', [''HKGHKGSH'', ''HKGHKGHR'']),
      (''singapore'', [''SINSINRH'', ''SINSINFS'']),
      (''sin'', [''SINSINRH'', ''SINSINFS'']),
      (''bangkok'', [''BKKBKKHB'', ''BKKBKKSH'']),
      (''bkk'', [''BKKBKKHB'', ''BKKBKKSH'']),
      (''sydney'', [''SYDSYDHP'', ''SYDSYDFS'']),
      (''syd'', [''SYDSYDHP'', ''SYDSYDFS'']),
      (''dubai'', [''DXBDUBCC'', ''DXBDUBIC'']),
      (''dxb'', [''DXBDUBCC'', ''DXBDUBIC'']),
      (''losangeles'', [''LAXLAXTL'', ''LAXBVRMC'']),
      (''lax'', [''LAXLAXTL'', ''LAXBVRMC'']),
      (''los angeles'', [''LAXLAXTL'', ''LAXBVRMC'']),
      (''sanfrancisco'', [''SFOSFOLW'', ''SFOSFOSC'']),
      (''sfo'', [''SFOSFOLW'', ''SFOSFOSC'']),
      (''san francisco'', [''SFOSFOLW'', ''SFOSFOSC''])]"

definition CITY_CODE_MAPPING :: "(string \<times> string) list" where
  "CITY_CODE_MAPPING =
     [(''london'', ''LON''),
      (''paris'', ''PAR''),
      (''newyork'', ''NYC''),
      (''new york'', ''NYC''),
      (''tokyo'', ''TYO''),
      (''beijing'', ''PEK''),
      (''shanghai'', ''SHA''),
      (''hongkong'', ''HKG''),
      (''hong kong'', ''HKG''),
      (''singapore'', ''SIN''),
      (''bangkok'', ''BKK''),
      (''sydney'', ''SYD''),
      (''dubai'', ''DXB''),
      (''losangeles'', ''LAX''),
      (''los angeles'', ''LAX''),
      (''sanfrancisco'', ''SFO''),
      (''san francisco'', ''SFO''),
      (''berlin'', ''BER''),
      (''frankfurt'', ''FRA''),
      (''amsterdam'', ''AMS''),
      (''rome'', ''ROM''),
      (''madrid'', ''MAD''),
      (''barcelona'', ''BCN''),
      (''moscow'', ''MOW''),
      (''chicago'', ''CHI''),
      (''washington'', ''WAS''),
      (''boston'', ''BOS''),
      (''toronto'', ''YTO''),
      (''vancouver'', ''YVR''),
      (''montreal'', ''YMQ''),
      (''milan'', ''MIL''),
      (''vienna'', ''VIE'')]"


text \<open>\<open>city.lower().replace(" ", "")\<close>: lowercase, every space removed.\<close>

definition city_key :: "string \<Rightarrow> string" where
  "city_key city = filter (\<lambda>c. c \<noteq> CHR '' '') (lower city)"

text \<open>
  \<open>HOTEL_ID_MAPPING.get(city_key, [])\<close> of the tool \<open>search_hotels\<close>, and
  \<open>CITY_CODE_MAPPING.get(city_key, city.upper())\<close> of the tool
  \<open>search_hotels_by_city\<close>.
\<close>

definition hotel_ids_for :: "string \<Rightarrow> string list" where
  "hotel_ids_for city =
     (case map_of HOTEL_ID_MAPPING (city_key city) of None \<Rightarrow> [] | Some ids \<Rightarrow> ids)"

definition city_code_for :: "string \<Rightarrow> string" where
  "city_code_for city =
     (case map_of CITY_CODE_MAPPING (city_key city) of None \<Rightarrow> upper city | Some code \<Rightarrow> code)"

text \<open>
  The normalisation in the specification's words, to compare the code with: a
  name is put in lower case letter by letter, by the table of the 26 letters, and
  its spaces are stripped; the fallback code is the name in upper case.
\<close>

definition letter_pairs :: "(char \<times> char) list" where
  "letter_pairs = zip ''ABCDEFGHIJKLMNOPQRSTUVWXYZ'' ''abcdefghijklmnopqrstuvwxyz''"

definition lowercase_letter :: "char \<Rightarrow> char" where
  "lowercase_letter c = (case map_of letter_pairs c of None \<Rightarrow> c | Some l \<Rightarrow> l)"

definition uppercase_letter :: "char \<Rightarrow> char" where
  "uppercase_letter c =
     (case map_of (map prod.swap letter_pairs) c of None \<Rightarrow> c | Some u \<Rightarrow> u)"

definition normalised_name :: "string \<Rightarrow> string" where
  "normalised_name city = map lowercase_letter (filter (\<lambda>c. c \<noteq> CHR '' '') city)"

definition uppercased :: "string \<Rightarrow> string" where
  "uppercased city = map uppercase_letter city"

section \<open>Dates\<close>


















section \<open>The tool \<open>search_hotels\<close>: from its arguments to the provider call\<close>





section \<open>The tool \<open>search_hotels\<close>: formatting the offers\<close>

text \<open>
  The records of the provider's answer, by the keys the tool reads. A field is
  \<open>None\<close> when its key (or a dict on the path to it) is missing, so that the tool
  takes the default of its \<open>get\<close>. Of an offer: \<open>room.type\<close>,
  \<open>room.description.text\<close>, \<open>price.currency\<close>, \<open>price.total\<close>,
  \<open>policies.paymentType\<close>, \<open>policies.cancellation.description.text\<close>. Of a
  hotel record: \<open>hotel.name\<close>, \<open>hotel.hotelId\<close>, \<open>hotel.cityCode\<close>,
  \<open>available\<close>, \<open>offers\<close>. The provider's schema types every text field as a
  string.
\<close>

record offer =
  o_room_type :: "string option"
  o_description :: "string option"
  o_currency :: "string option"
  o_total :: "string option"
  o_payment_type :: "string option"
  o_cancellation :: "string option"

record hotel_data =
  h_name :: "string option"
  h_id :: "string option"
  h_city_code :: "string option"
  h_available :: "bool option"
  h_offers :: "offer list option"

definition or_default :: "'a option \<Rightarrow> 'a \<Rightarrow> 'a" where
  "or_default x dflt = (case x of None \<Rightarrow> dflt | Some v \<Rightarrow> v)"

text \<open>Lines 330 to 351: one offer, \<open>j\<close> counting from 0.\<close>

definition format_offer :: "nat \<Rightarrow> offer \<Rightarrow> string" where
  "format_offer j offer =
     (let room_type = or_default (o_room_type offer) ''Unknown'';
          room_desc = or_default (o_description offer) ''No description'';
          currency_code = or_default (o_currency offer) ''EUR'';
          total_price = or_default (o_total offer) ''Unknown'';
          payment_type = or_default (o_payment_type offer) ''Unknown'';
          cancellation_desc =
            or_default (o_cancellation offer) ''No cancellation policy information''
      in ''  Offer '' @ str_nat (j + 1) @ '':\<newline>''
         @ ''  - Room Type: '' @ room_type @ ''\<newline>''
         @ ''  - Description: '' @ take 100 room_desc
             @ (if length room_desc > 100 then ''...'' else '''') @ ''\<newline>''
         @ ''  - Price: '' @ total_price @ '' '' @ currency_code @ ''\<newline>''
         @ ''  - Payment Type: '' @ payment_type @ ''\<newline>''
         @ ''  - Cancellation Policy: '' @ cancellation_desc @ ''\<newline>\<newline>'')"

fun format_offers :: "nat \<Rightarrow> offer list \<Rightarrow> string" where
  "format_offers j [] = []"
| "format_offers j (offer # rest) = format_offer j offer @ format_offers (j + 1) rest"

text \<open>
  Lines 310 to 354: one hotel record, \<open>i\<close> counting from 0, \<open>n\<close> the number of
  records. A record that is not available gets its status line and nothing else.
\<close>

definition format_hotel :: "nat \<Rightarrow> nat \<Rightarrow> hotel_data \<Rightarrow> string" where
  "format_hotel i n hotel =
     (let hotel_name = or_default (h_name hotel) ''Unknown Hotel'';
          hotel_id = or_default (h_id hotel) ''Unknown ID'';
          city_code = or_default (h_city_code hotel) '''';
          available = or_default (h_available hotel) False;
          offers = or_default (h_offers hotel) []
      in ''Hotel '' @ str_nat (i + 1) @ '': '' @ hotel_name @ '' ('' @ hotel_id @ '')\<newline>''
         @ ''City Code: '' @ city_code @ ''\<newline>''
         @ (if \<not> available then ''Status: Sold out\<newline>\<newline>''
            else ''Found '' @ str_nat (length offers) @ '' offers:\<newline>''
                 @ format_offers 0 offers
                 @ (if int i < int n - 1 then ''---\<newline>\<newline>'' else '''')))"

fun format_hotels :: "nat \<Rightarrow> nat \<Rightarrow> hotel_data list \<Rightarrow> string" where
  "format_hotels i n [] = []"
| "format_hotels i n (hotel # rest) = format_hotel i n hotel @ format_hotels (i + 1) n rest"

text \<open>Lines 307 to 356: the text returned for the list of hotel records.\<close>

definition search_hotels_text :: "string \<Rightarrow> string \<Rightarrow> string \<Rightarrow> hotel_data list \<Rightarrow> string" where
  "search_hotels_text city check_in_date check_out_date hotels =
     ''Found '' @ str_nat (length hotels) @ '' hotels in '' @ city @ '' from ''
       @ check_in_date @ '' to '' @ check_out_date @ '':\<newline>\<newline>''
       @ format_hotels 0 (length hotels) hotels"

section \<open>Sample inputs\<close>

text \<open>
  A provider that rejects the credentials; one that grants a token and then answers
  every search with status 500 and an empty body; one that grants a token and is
  then unreachable. A service that holds a token valid until time 2000.
\<close>

definition auth_rejected :: transport where
  "auth_rejected rq = Answered 401 (Inl ''Expecting value'') (Inr ''invalid_client'')"

definition token_granted :: http_outcome where
  "token_granted =
     Answered 200 (Inr (JObj [(''access_token'', JStr ''abc''), (''expires_in'', JInt 1799)]))
       (Inr [])"

definition search_rejected :: transport where
  "search_rejected rq =
     (if req_url rq = AUTH_ENDPOINT then token_granted
      else Answered 500 (Inl ''Expecting value'') (Inr []))"

definition search_unreachable :: transport where
  "search_unreachable rq =
     (if req_url rq = AUTH_ENDPOINT then token_granted else Raised ''Cannot connect to host'')"

definition new_service :: service where
  "new_service = init_service (Some ''id'') (Some ''key'')"

definition cached_service :: service where
  "cached_service =
     \<lparr>client_id = Some ''id'', client_secret = Some ''key'',
      access_token = JStr ''abc'', token_expires_at = 2000\<rparr>"

text \<open>
  A provider whose 200 answer gives \<open>expires_in\<close> as a text, and a service whose
  token ran out at time 400.
\<close>

definition expiry_as_text :: transport where
  "expiry_as_text rq =
     Answered 200 (Inr (JObj [(''access_token'', JStr ''new''), (''expires_in'', JStr ''1799'')]))
       (Inr [])"

definition stale_service :: service where
  "stale_service =
     \<lparr>client_id = Some ''id'', client_secret = Some ''key'',
      access_token = JStr ''old'', token_expires_at = 400\<rparr>"

definition sea_view_offer :: offer where
  "sea_view_offer =
     \<lparr>o_room_type = Some ''DELUXE'', o_description = Some ''Sea view'',
      o_currency = Some ''GBP'', o_total = Some ''250.00'',
      o_payment_type = Some ''guarantee'', o_cancellation = None\<rparr>"

definition open_hotel :: hotel_data where
  "open_hotel =
     \<lparr>h_name = Some ''Grand'', h_id = Some ''MCLONGHM'', h_city_code = Some ''LON'',
      h_available = Some True, h_offers = Some [sea_view_offer]\<rparr>"

definition sold_out_hotel :: hotel_data where
  "sold_out_hotel =
     \<lparr>h_name = Some ''Grand'', h_id = Some ''MCLONGHM'', h_city_code = Some ''LON'',
      h_available = Some False, h_offers = Some [sea_view_offer]\<rparr>"

section \<open>Properties of the token cache\<close>

lemma ensure_token_cached:
  "truthy (access_token s) \<Longrightarrow> current_time < token_expires_at s \<Longrightarrow>
   ensure_token http current_time s = (access_token s, s, [])"
  by (simp add: ensure_token_def)

lemma ensure_token_refresh_log:
  "\<not> truthy (access_token s) \<or> token_expires_at s \<le> current_time \<Longrightarrow>
   snd (snd (ensure_token http current_time s)) = [token_request s]"
  by (auto simp: ensure_token_def Let_def
           split: http_outcome.splits sum.splits json.splits option.splits)

lemma ensure_token_log_cases:
  "snd (snd (ensure_token http current_time s)) = [] \<or>
   snd (snd (ensure_token http current_time s)) = [token_request s]"
  by (auto simp: ensure_token_def Let_def
           split: http_outcome.splits sum.splits json.splits option.splits)

text \<open>
  A 200 answer whose \<open>expires_in\<close> is not a number: the addition raises after
  \<open>access_token\<close> has been assigned, so the method returns \<open>None\<close> with the new
  token stored and the old expiry kept.
\<close>

lemma ensure_token_non_numeric_expires_in:
  assumes "\<not> truthy (access_token s) \<or> token_expires_at s \<le> current_time"
    and "http (token_request s) = Answered 200 (Inr (JObj result)) body_text"
    and "map_of result ''expires_in'' = Some e" and "json_num e = None"
  shows "ensure_token http current_time s =
           (JNull, s\<lparr>access_token := dict_get result ''access_token'' JNull\<rparr>, [token_request s])"
  using assms by (auto simp: ensure_token_def Let_def dict_get_def)

text \<open>
  C3. When a token is held (the cached value is truthy) and the current time is
  strictly before \<open>token_expires_at\<close>, \<open>_ensure_token\<close> issues no request and returns
  the cached token, leaving the service as it was. When no token is held or the
  current time is at or past \<open>token_expires_at\<close>, it issues exactly one request: a
  POST to the auth endpoint whose form data are \<open>grant_type=client_credentials\<close>
  and the stored client id and secret.
\<close>

theorem ensure_token_refresh_iff_stale:
  "(truthy (access_token s) \<and> current_time < token_expires_at s \<longrightarrow>
      ensure_token http current_time s = (access_token s, s, []))
   \<and> (\<not> truthy (access_token s) \<or> token_expires_at s \<le> current_time \<longrightarrow>
      (\<exists>rq. snd (snd (ensure_token http current_time s)) = [rq]
         \<and> req_method rq = POST \<and> req_url rq = AUTH_ENDPOINT
         \<and> req_fields rq = [(''grant_type'', PStr ''client_credentials''),
                            (''client_id'', opt_field (client_id s)),
                            (''client_secret'', opt_field (client_secret s))]))"
proof (intro conjI impI)
  assume "truthy (access_token s) \<and> current_time < token_expires_at s"
  then show "ensure_token http current_time s = (access_token s, s, [])"
    by (simp add: ensure_token_cached)
next
  assume stale: "\<not> truthy (access_token s) \<or> token_expires_at s \<le> current_time"
  have "snd (snd (ensure_token http current_time s)) = [token_request s]"
    using stale by (rule ensure_token_refresh_log)
  then show "\<exists>rq. snd (snd (ensure_token http current_time s)) = [rq]
         \<and> req_method rq = POST \<and> req_url rq = AUTH_ENDPOINT
         \<and> req_fields rq = [(''grant_type'', PStr ''client_credentials''),
                            (''client_id'', opt_field (client_id s)),
                            (''client_secret'', opt_field (client_secret s))]"
    by (simp add: token_request_def)
qed

theorem ensure_token_refresh_iff_stale_witness:
  "ensure_token (\<lambda>rq. Raised ''unreachable'') 100
     \<lparr>client_id = Some ''id'', client_secret = Some ''key'',
      access_token = JStr ''tok'', token_expires_at = 200\<rparr>
   = (JStr ''tok'',
      \<lparr>client_id = Some ''id'', client_secret = Some ''key'',
       access_token = JStr ''tok'', token_expires_at = 200\<rparr>, [])
   \<and> (\<exists>rq. snd (snd (ensure_token (\<lambda>rq. Raised ''unreachable'') 200
          \<lparr>client_id = Some ''id'', client_secret = Some ''key'',
           access_token = JStr ''tok'', token_expires_at = 200\<rparr>)) = [rq]
        \<and> req_method rq = POST \<and> req_url rq = AUTH_ENDPOINT
        \<and> req_fields rq = [(''grant_type'', PStr ''client_credentials''),
                           (''client_id'', PStr ''id''), (''client_secret'', PStr ''key'')])"
  using ensure_token_refresh_iff_stale
          [where s = "\<lparr>client_id = Some ''id'', client_secret = Some ''key'',
                       access_token = JStr ''tok'', token_expires_at = 200\<rparr>"
             and current_time = 100 and http = "\<lambda>rq. Raised ''unreachable''"]
        ensure_token_refresh_iff_stale
          [where s = "\<lparr>client_id = Some ''id'', client_secret = Some ''key'',
                       access_token = JStr ''tok'', token_expires_at = 200\<rparr>"
             and current_time = 200 and http = "\<lambda>rq. Raised ''unreachable''"]
  by (simp add: opt_field_def)

text \<open>
  C5. When the exchange is made and answers 200 with a body that holds
  \<open>access_token\<close> and a numeric \<open>expires_in\<close>, \<open>_ensure_token\<close> stores that
  \<open>access_token\<close>, sets \<open>token_expires_at\<close> to the current time plus \<open>expires_in\<close>
  minus 60, and returns the token.
\<close>

theorem ensure_token_success_caches:
  assumes "\<not> truthy (access_token s) \<or> token_expires_at s \<le> current_time"
    and "http (token_request s) = Answered 200 (Inr (JObj result)) body_text"
    and "map_of result ''access_token'' = Some tok"
    and "map_of result ''expires_in'' = Some e"
    and "json_num e = Some n"
  shows "ensure_token http current_time s =
           (tok, s\<lparr>access_token := tok, token_expires_at := current_time + n - 60\<rparr>,
            [token_request s])"
  using assms by (auto simp: ensure_token_def Let_def dict_get_def)

theorem ensure_token_success_caches_witness:
  "ensure_token
     (\<lambda>rq. Answered 200
        (Inr (JObj [(''access_token'', JStr ''abc''), (''expires_in'', JInt 1799)])) (Inr []))
     1000 (init_service (Some ''id'') (Some ''key''))
   = (JStr ''abc'',
      \<lparr>client_id = Some ''id'', client_secret = Some ''key'',
       access_token = JStr ''abc'', token_expires_at = 2739\<rparr>,
      [token_request (init_service (Some ''id'') (Some ''key''))])"
  using ensure_token_success_caches
          [where s = "init_service (Some ''id'') (Some ''key'')" and current_time = 1000
             and http = "\<lambda>rq. Answered 200
               (Inr (JObj [(''access_token'', JStr ''abc''), (''expires_in'', JInt 1799)])) (Inr [])"
             and result = "[(''access_token'', JStr ''abc''), (''expires_in'', JInt 1799)]"
             and body_text = "Inr []" and tok = "JStr ''abc''" and e = "JInt 1799" and n = 1799]
  by (simp add: init_service_def)

text \<open>
  When the exchange is made and ends in a status other than 200, in an exception
  raised by the transport, or in a body that cannot be decoded to a dict,
  \<open>_ensure_token\<close> returns \<open>None\<close> and the service keeps \<open>access_token\<close> and
  \<open>token_expires_at\<close> as they were.
\<close>

lemma ensure_token_failure_keeps_cache:
  assumes "\<not> truthy (access_token s) \<or> token_expires_at s \<le> current_time"
    and "exchange_failed (http (token_request s))"
  shows "ensure_token http current_time s = (JNull, s, [token_request s])"
proof (cases "http (token_request s)")
  case (Raised e)
  with assms(1) show ?thesis by (auto simp: ensure_token_def Let_def)
next
  case (Answered status js body_text)
  show ?thesis
  proof (cases js)
    case (Inl e)
    with Answered assms(1) show ?thesis by (auto simp: ensure_token_def Let_def)
  next
    case (Inr v)
    with Answered assms show ?thesis
      by (cases v) (auto simp: ensure_token_def Let_def)
  qed
qed

text \<open>
  C6 does not hold of the code. A 200 answer whose \<open>expires_in\<close> is a text makes
  the addition raise \<open>TypeError\<close> after \<open>access_token\<close> has been assigned: the
  \<open>except\<close> clause returns \<open>None\<close>, and the service now holds the new token with
  the old expiry, where every other failure of the exchange leaves the cache as it
  was.
\<close>

theorem ensure_token_type_error_overwrites_token:
  "ensure_token expiry_as_text 500 stale_service
     = (JNull, stale_service\<lparr>access_token := JStr ''new''\<rparr>, [token_request stale_service])
   \<and> access_token (fst (snd (ensure_token expiry_as_text 500 stale_service))) = JStr ''new''
   \<and> access_token stale_service = JStr ''old''
   \<and> token_expires_at (fst (snd (ensure_token expiry_as_text 500 stale_service))) = 400"
  by (simp add: ensure_token_def expiry_as_text_def stale_service_def dict_get_def)

theorem ensure_token_type_error_overwrites_token_witness:
  "fst (ensure_token expiry_as_text 500 stale_service) = JNull
   \<and> access_token (fst (snd (ensure_token expiry_as_text 500 stale_service)))
         \<noteq> access_token stale_service"
  using ensure_token_type_error_overwrites_token by simp

text \<open>
  C10. When the exchange is made and answers 200 with a dict that has no
  \<open>expires_in\<close> key, the lifetime is taken to be 1800 seconds: \<open>token_expires_at\<close>
  becomes the current time plus 1740, and the body's \<open>access_token\<close> is stored and
  returned.
\<close>

theorem ensure_token_default_lifetime:
  assumes "\<not> truthy (access_token s) \<or> token_expires_at s \<le> current_time"
    and "http (token_request s) = Answered 200 (Inr (JObj result)) body_text"
    and "map_of result ''expires_in'' = None"
  shows "ensure_token http current_time s =
           (dict_get result ''access_token'' JNull,
            s\<lparr>access_token := dict_get result ''access_token'' JNull,
              token_expires_at := current_time + 1740\<rparr>,
            [token_request s])"
  using assms by (auto simp: ensure_token_def Let_def dict_get_def)

theorem ensure_token_default_lifetime_witness:
  "ensure_token (\<lambda>rq. Answered 200 (Inr (JObj [(''access_token'', JStr ''abc'')])) (Inr []))
     1000 (init_service (Some ''id'') (Some ''key''))
   = (JStr ''abc'',
      \<lparr>client_id = Some ''id'', client_secret = Some ''key'',
       access_token = JStr ''abc'', token_expires_at = 2740\<rparr>,
      [token_request (init_service (Some ''id'') (Some ''key''))])"
  using ensure_token_default_lifetime
          [where s = "init_service (Some ''id'') (Some ''key'')" and current_time = 1000
             and http = "\<lambda>rq. Answered 200 (Inr (JObj [(''access_token'', JStr ''abc'')])) (Inr [])"
             and result = "[(''access_token'', JStr ''abc'')]" and body_text = "Inr []"]
  by (simp add: init_service_def dict_get_def)

section \<open>Properties of the provider clients\<close>

lemma lower_True: "lower ''True'' = ''true''"
  by code_simp

lemma lower_False: "lower ''False'' = ''false''"
  by code_simp

lemma lower_str_bool: "lower (str_bool b) = (if b then ''true'' else ''false'')"
  by (simp add: str_bool_def lower_True lower_False)

lemma is_error_result_iff: "is_error_result (error_result msg) = (msg \<noteq> [])"
  by (simp add: error_result_def)

lemma search_airports_failure:
  assumes "ensure_token http current_time s = (token, s', sent)"
  shows "\<not> truthy token \<or>
         search_failure (http (get_request AIRPORT_SEARCH_ENDPOINT token
           (airport_params keyword subtype))) \<noteq> None
         \<Longrightarrow> fst (search_airports http current_time s keyword subtype) = JArr []"
  using assms
  by (auto simp: search_airports_def Let_def
           split: http_outcome.splits sum.splits json.splits if_splits)

lemma get_flight_checkin_links_failure:
  assumes "ensure_token http current_time s = (token, s', sent)"
  shows "\<not> truthy token \<or>
         search_failure (http (get_request CHECKIN_LINKS_ENDPOINT token
           (checkin_params airline_code))) \<noteq> None
         \<Longrightarrow> fst (get_flight_checkin_links http current_time s airline_code) = JArr []"
  using assms
  by (auto simp: get_flight_checkin_links_def Let_def
           split: http_outcome.splits sum.splits json.splits if_splits)

lemma search_flights_failure:
  assumes "ensure_token http current_time s = (token, s', sent)"
  shows "fst (search_flights http current_time s origin destination departure_date adults
                max_results) =
         (if \<not> truthy token then error_result ''Unable to get access token''
          else case search_failure (http (get_request FLIGHT_SEARCH_ENDPOINT token
                      (flight_params origin destination departure_date adults max_results))) of
                 Some msg \<Rightarrow> error_result msg
               | None \<Rightarrow> fst (search_flights http current_time s origin destination
                                 departure_date adults max_results))"
  using assms
  by (auto simp: search_flights_def Let_def
           split: http_outcome.splits sum.splits json.splits if_splits)

lemma search_hotels_by_city_failure:
  assumes "ensure_token http current_time s = (token, s', sent)"
  shows "fst (search_hotels_by_city http current_time s city_code radius radius_unit chain_codes
                amenities ratings hotel_source) =
         (if \<not> truthy token then error_result ''Unable to get access token''
          else case search_failure (http (get_request HOTELS_BY_CITY_ENDPOINT token
                      (hotels_by_city_params city_code radius radius_unit chain_codes amenities
                         ratings hotel_source))) of
                 Some msg \<Rightarrow> error_result msg
               | None \<Rightarrow> fst (search_hotels_by_city http current_time s city_code radius
                                 radius_unit chain_codes amenities ratings hotel_source))"
  using assms
  by (auto simp: search_hotels_by_city_def Let_def
           split: http_outcome.splits sum.splits json.splits if_splits)

lemma search_hotel_offers_failure:
  assumes "ensure_token http current_time s = (token, s', sent)"
  shows "fst (search_hotel_offers http current_time s hotel_ids check_in_date check_out_date
                adults room_quantity price_range currency board_type include_closed
                best_rate_only) =
         (if \<not> truthy token then error_result ''Unable to get access token''
          else case search_failure (http (get_request HOTEL_OFFERS_ENDPOINT token
                      (hotel_offers_params hotel_ids check_in_date check_out_date adults
                         room_quantity price_range currency board_type include_closed
                         best_rate_only))) of
                 Some msg \<Rightarrow> error_result msg
               | None \<Rightarrow> fst (search_hotel_offers http current_time s hotel_ids check_in_date
                                 check_out_date adults room_quantity price_range currency
                                 board_type include_closed best_rate_only))"
  using assms
  by (auto simp: search_hotel_offers_def Let_def
           split: http_outcome.splits sum.splits json.splits if_splits)

text \<open>The requests a hotel-offer search issues: at most the token exchange, then the query.\<close>

lemma search_hotel_offers_log:
  assumes "ensure_token http current_time s = (token, s', sent)"
  shows "snd (snd (search_hotel_offers http current_time s hotel_ids check_in_date
                     check_out_date adults room_quantity price_range currency board_type
                     include_closed best_rate_only)) =
         (if truthy token
          then sent @ [get_request HOTEL_OFFERS_ENDPOINT token
                  (hotel_offers_params hotel_ids check_in_date check_out_date adults
                     room_quantity price_range currency board_type include_closed
                     best_rate_only)]
          else sent)"
  using assms
  by (auto simp: search_hotel_offers_def Let_def
           split: http_outcome.splits sum.splits json.splits if_splits)

lemma ensure_token_log_urls:
  "rq \<in> set (snd (snd (ensure_token http current_time s))) \<Longrightarrow> req_url rq = AUTH_ENDPOINT"
  using ensure_token_log_cases [of http current_time s] by (auto simp: token_request_def)


lemma price_params_iff:
  "(map_of (hotel_offers_params hotel_ids check_in_date check_out_date adults room_quantity
       price_range currency board_type include_closed best_rate_only) ''priceRange'' =
      (if given price_range \<and> given currency then Some (PStr (the price_range)) else None))
   \<and> (map_of (hotel_offers_params hotel_ids check_in_date check_out_date adults room_quantity
       price_range currency board_type include_closed best_rate_only) ''currency'' =
      (if given price_range \<and> given currency then Some (PStr (the currency)) else None))"
  by (simp add: hotel_offers_params_def)

lemma flag_params:
  "(map_of (hotel_offers_params hotel_ids check_in_date check_out_date adults room_quantity
       price_range currency board_type include_closed best_rate_only) ''bestRateOnly'' =
      Some (PStr (if best_rate_only then ''true'' else ''false'')))
   \<and> (map_of (hotel_offers_params hotel_ids check_in_date check_out_date adults room_quantity
       price_range currency board_type include_closed best_rate_only) ''includeClosed'' =
      (if include_closed then Some (PStr ''true'') else None))"
  by (simp add: hotel_offers_params_def lower_str_bool)


text \<open>
  C1, as the code has it. When no token can be obtained, \<open>search_flights\<close>,
  \<open>search_hotels_by_city\<close> and \<open>search_hotel_offers\<close> return the object with
  \<open>error = "Unable to get access token"\<close> and an empty \<open>data\<close> list; when the search
  request fails they return the object whose \<open>error\<close> is the failure's message (the
  body text of the non-200 answer, or the text of the exception) and whose \<open>data\<close>
  is empty. Such an object has a non-empty \<open>error\<close> exactly when the message is
  non-empty. \<open>search_airports\<close> and \<open>get_flight_checkin_links\<close> return the empty
  list in every failure.
\<close>

theorem search_failure_results:
  assumes "ensure_token http current_time s = (token, s', sent)"
  shows
    "(\<not> truthy token \<longrightarrow>
        fst (search_airports http current_time s keyword subtype) = JArr []
      \<and> fst (get_flight_checkin_links http current_time s airline_code) = JArr []
      \<and> fst (search_flights http current_time s origin destination departure_date adults
                max_results) = error_result ''Unable to get access token''
      \<and> fst (search_hotels_by_city http current_time s city_code radius radius_unit chain_codes
                amenities ratings hotel_source) = error_result ''Unable to get access token''
      \<and> fst (search_hotel_offers http current_time s hotel_ids check_in_date check_out_date
                party room_quantity price_range currency board_type include_closed
                best_rate_only) = error_result ''Unable to get access token'')
   \<and> (truthy token \<longrightarrow>
        (search_failure (http (get_request AIRPORT_SEARCH_ENDPOINT token
             (airport_params keyword subtype))) \<noteq> None \<longrightarrow>
           fst (search_airports http current_time s keyword subtype) = JArr [])
      \<and> (search_failure (http (get_request CHECKIN_LINKS_ENDPOINT token
             (checkin_params airline_code))) \<noteq> None \<longrightarrow>
           fst (get_flight_checkin_links http current_time s airline_code) = JArr [])
      \<and> (\<forall>msg. search_failure (http (get_request FLIGHT_SEARCH_ENDPOINT token
             (flight_params origin destination departure_date adults max_results))) = Some msg
           \<longrightarrow> fst (search_flights http current_time s origin destination departure_date adults
                     max_results) = error_result msg)
      \<and> (\<forall>msg. search_failure (http (get_request HOTELS_BY_CITY_ENDPOINT token
             (hotels_by_city_params city_code radius radius_unit chain_codes amenities ratings
                hotel_source))) = Some msg
           \<longrightarrow> fst (search_hotels_by_city http current_time s city_code radius radius_unit
                     chain_codes amenities ratings hotel_source) = error_result msg)
      \<and> (\<forall>msg. search_failure (http (get_request HOTEL_OFFERS_ENDPOINT token
             (hotel_offers_params hotel_ids check_in_date check_out_date party room_quantity
                price_range currency board_type include_closed best_rate_only))) = Some msg
           \<longrightarrow> fst (search_hotel_offers http current_time s hotel_ids check_in_date
                     check_out_date party room_quantity price_range currency board_type
                     include_closed best_rate_only) = error_result msg))
   \<and> is_error_result (error_result ''Unable to get access token'')
   \<and> (\<forall>msg. is_error_result (error_result msg) = (msg \<noteq> []))"
proof (intro conjI impI allI)
  assume "\<not> truthy token"
  then show "fst (search_airports http current_time s keyword subtype) = JArr []"
    using search_airports_failure [OF assms] by blast
next
  assume "\<not> truthy token"
  then show "fst (get_flight_checkin_links http current_time s airline_code) = JArr []"
    using get_flight_checkin_links_failure [OF assms] by blast
next
  assume "\<not> truthy token"
  then show "fst (search_flights http current_time s origin destination departure_date adults
                max_results) = error_result ''Unable to get access token''"
    by (subst search_flights_failure [OF assms]) simp
next
  assume "\<not> truthy token"
  then show "fst (search_hotels_by_city http current_time s city_code radius radius_unit
                chain_codes amenities ratings hotel_source)
             = error_result ''Unable to get access token''"
    by (subst search_hotels_by_city_failure [OF assms]) simp
next
  assume "\<not> truthy token"
  then show "fst (search_hotel_offers http current_time s hotel_ids check_in_date check_out_date
                party room_quantity price_range currency board_type include_closed
                best_rate_only) = error_result ''Unable to get access token''"
    by (subst search_hotel_offers_failure [OF assms]) simp
next
  assume "search_failure (http (get_request AIRPORT_SEARCH_ENDPOINT token
             (airport_params keyword subtype))) \<noteq> None"
  then show "fst (search_airports http current_time s keyword subtype) = JArr []"
    using search_airports_failure [OF assms] by blast
next
  assume "search_failure (http (get_request CHECKIN_LINKS_ENDPOINT token
             (checkin_params airline_code))) \<noteq> None"
  then show "fst (get_flight_checkin_links http current_time s airline_code) = JArr []"
    using get_flight_checkin_links_failure [OF assms] by blast
next
  fix msg
  assume "truthy token"
    and "search_failure (http (get_request FLIGHT_SEARCH_ENDPOINT token
             (flight_params origin destination departure_date adults max_results))) = Some msg"
  then show "fst (search_flights http current_time s origin destination departure_date adults
                max_results) = error_result msg"
    by (subst search_flights_failure [OF assms]) simp
next
  fix msg
  assume "truthy token"
    and "search_failure (http (get_request HOTELS_BY_CITY_ENDPOINT token
             (hotels_by_city_params city_code radius radius_unit chain_codes amenities ratings
                hotel_source))) = Some msg"
  then show "fst (search_hotels_by_city http current_time s city_code radius radius_unit
                chain_codes amenities ratings hotel_source) = error_result msg"
    by (subst search_hotels_by_city_failure [OF assms]) simp
next
  fix msg
  assume "truthy token"
    and "search_failure (http (get_request HOTEL_OFFERS_ENDPOINT token
             (hotel_offers_params hotel_ids check_in_date check_out_date party room_quantity
                price_range currency board_type include_closed best_rate_only))) = Some msg"
  then show "fst (search_hotel_offers http current_time s hotel_ids check_in_date
                check_out_date party room_quantity price_range currency board_type
                include_closed best_rate_only) = error_result msg"
    by (subst search_hotel_offers_failure [OF assms]) simp
next
  show "is_error_result (error_result ''Unable to get access token'')"
    by (simp add: is_error_result_iff)
next
  fix msg show "is_error_result (error_result msg) = (msg \<noteq> [])"
    by (rule is_error_result_iff)
qed

lemma ensure_token_auth_rejected:
  "ensure_token auth_rejected 1000 new_service = (JNull, new_service, [token_request new_service])"
  by (simp add: ensure_token_def auth_rejected_def new_service_def init_service_def)

lemma ensure_token_cached_service:
  "ensure_token http 1000 cached_service = (JStr ''abc'', cached_service, [])"
  by (simp add: ensure_token_def cached_service_def)

theorem search_failure_results_witness:
  "fst (search_flights auth_rejected 1000 new_service ''MAD'' ''BCN'' ''2025-07-01'' 1 3)
     = error_result ''Unable to get access token''
   \<and> fst (search_airports auth_rejected 1000 new_service ''LON'' ''AIRPORT'') = JArr []
   \<and> fst (search_hotels_by_city search_unreachable 1000 cached_service ''PAR'' 5 ''KM'' None None
            None ''ALL'') = error_result ''Cannot connect to host''
   \<and> fst (get_flight_checkin_links search_unreachable 1000 cached_service ''BA'') = JArr []"
  using search_failure_results [OF ensure_token_auth_rejected,
          where origin = "''MAD''" and destination = "''BCN''"
            and departure_date = "''2025-07-01''" and adults = 1 and max_results = 3
            and keyword = "''LON''" and subtype = "''AIRPORT''"]
        search_failure_results [OF ensure_token_cached_service,
          where http = search_unreachable and city_code = "''PAR''" and radius = 5
            and radius_unit = "''KM''" and chain_codes = None and amenities = None
            and ratings = None and hotel_source = "''ALL''" and airline_code = "''BA''"]
  by (simp add: search_unreachable_def get_request_def)

text \<open>
  C1 as stated fails: with the credentials rejected, \<open>search_airports\<close> returns a bare
  empty list, not an object with an \<open>error\<close> field; and a non-200 answer with an
  empty body makes \<open>search_flights\<close> return an empty \<open>error\<close> string.
\<close>

theorem search_failure_not_always_error_object:
  "\<not> is_error_result (fst (search_airports auth_rejected 1000 new_service ''LON'' ''AIRPORT''))
   \<and> \<not> is_error_result
         (fst (search_flights search_rejected 1000 cached_service ''MAD'' ''BCN'' ''2025-07-01'' 1 3))"
  by (simp add: search_airports_def search_flights_def ensure_token_auth_rejected
        ensure_token_cached_service search_rejected_def get_request_def error_result_def)

text \<open>
  C7. Every call of \<open>search_hotel_offers\<close> that obtains a token sends, after the
  requests of the token step, exactly one request: a GET to the hotel-offers
  endpoint. In its query \<open>priceRange\<close> is present exactly when both \<open>price_range\<close>
  and \<open>currency\<close> are given (not \<open>None\<close> and not empty), and so is \<open>currency\<close>;
  when present they carry the two arguments. With \<open>price_range\<close> given and no
  \<open>currency\<close>, neither is in the query. A call that obtains no token sends no
  query.
\<close>

theorem price_range_attached_iff_currency:
  assumes "ensure_token http current_time s = (token, s', sent)"
  shows "(truthy token \<longrightarrow>
           (\<exists>rq. snd (snd (search_hotel_offers http current_time s hotel_ids check_in_date
                     check_out_date adults room_quantity price_range currency board_type
                     include_closed best_rate_only)) = sent @ [rq]
              \<and> req_method rq = GET \<and> req_url rq = HOTEL_OFFERS_ENDPOINT
              \<and> (map_of (req_fields rq) ''priceRange'' \<noteq> None
                    \<longleftrightarrow> given price_range \<and> given currency)
              \<and> (map_of (req_fields rq) ''currency'' \<noteq> None
                    \<longleftrightarrow> given price_range \<and> given currency)
              \<and> (given price_range \<and> given currency \<longrightarrow>
                    map_of (req_fields rq) ''priceRange'' = Some (PStr (the price_range))
                  \<and> map_of (req_fields rq) ''currency'' = Some (PStr (the currency)))
              \<and> (currency = None \<longrightarrow>
                    map_of (req_fields rq) ''priceRange'' = None
                  \<and> map_of (req_fields rq) ''currency'' = None)))
       \<and> (\<not> truthy token \<longrightarrow>
            snd (snd (search_hotel_offers http current_time s hotel_ids check_in_date
                     check_out_date adults room_quantity price_range currency board_type
                     include_closed best_rate_only)) = sent)
       \<and> (\<forall>r \<in> set sent. req_url r = AUTH_ENDPOINT)"
proof (intro conjI impI)
  let ?params = "hotel_offers_params hotel_ids check_in_date check_out_date adults
                   room_quantity price_range currency board_type include_closed best_rate_only"
  let ?rq = "get_request HOTEL_OFFERS_ENDPOINT token ?params"
  assume tok: "truthy token"
  have log: "snd (snd (search_hotel_offers http current_time s hotel_ids check_in_date
                     check_out_date adults room_quantity price_range currency board_type
                     include_closed best_rate_only)) = sent @ [?rq]"
    using tok by (simp add: search_hotel_offers_log [OF assms])
  have m: "req_method ?rq = GET" and u: "req_url ?rq = HOTEL_OFFERS_ENDPOINT"
    and f: "req_fields ?rq = ?params"
    by (simp_all add: get_request_def)
  have fields: "(map_of (req_fields ?rq) ''priceRange'' \<noteq> None
                    \<longleftrightarrow> given price_range \<and> given currency)
       \<and> (map_of (req_fields ?rq) ''currency'' \<noteq> None
                    \<longleftrightarrow> given price_range \<and> given currency)
       \<and> (given price_range \<and> given currency \<longrightarrow>
            map_of (req_fields ?rq) ''priceRange'' = Some (PStr (the price_range))
          \<and> map_of (req_fields ?rq) ''currency'' = Some (PStr (the currency)))
       \<and> (currency = None \<longrightarrow>
            map_of (req_fields ?rq) ''priceRange'' = None
          \<and> map_of (req_fields ?rq) ''currency'' = None)"
    unfolding f
    using price_params_iff [of hotel_ids check_in_date check_out_date adults
        room_quantity price_range currency board_type include_closed best_rate_only]
    by (auto simp: given_def)
  from log m u fields
  show "\<exists>rq. snd (snd (search_hotel_offers http current_time s hotel_ids check_in_date
                     check_out_date adults room_quantity price_range currency board_type
                     include_closed best_rate_only)) = sent @ [rq]
              \<and> req_method rq = GET \<and> req_url rq = HOTEL_OFFERS_ENDPOINT
              \<and> (map_of (req_fields rq) ''priceRange'' \<noteq> None
                    \<longleftrightarrow> given price_range \<and> given currency)
              \<and> (map_of (req_fields rq) ''currency'' \<noteq> None
                    \<longleftrightarrow> given price_range \<and> given currency)
              \<and> (given price_range \<and> given currency \<longrightarrow>
                    map_of (req_fields rq) ''priceRange'' = Some (PStr (the price_range))
                  \<and> map_of (req_fields rq) ''currency'' = Some (PStr (the currency)))
              \<and> (currency = None \<longrightarrow>
                    map_of (req_fields rq) ''priceRange'' = None
                  \<and> map_of (req_fields rq) ''currency'' = None)"
    by blast
next
  assume "\<not> truthy token"
  then show "snd (snd (search_hotel_offers http current_time s hotel_ids check_in_date
                     check_out_date adults room_quantity price_range currency board_type
                     include_closed best_rate_only)) = sent"
    by (simp add: search_hotel_offers_log [OF assms])
next
  show "\<forall>r \<in> set sent. req_url r = AUTH_ENDPOINT"
    using ensure_token_log_urls [of _ http current_time s] assms by simp
qed

lemma sample_offers_log:
  "snd (snd (search_hotel_offers search_unreachable 1000 cached_service hotel_ids check_in_date
               check_out_date adults room_quantity price_range currency board_type
               include_closed best_rate_only))
   = [get_request HOTEL_OFFERS_ENDPOINT (JStr ''abc'')
        (hotel_offers_params hotel_ids check_in_date check_out_date adults room_quantity
           price_range currency board_type include_closed best_rate_only)]"
  by (simp add: search_hotel_offers_log [OF ensure_token_cached_service])

theorem price_range_attached_iff_currency_witness:
  "snd (snd (search_hotel_offers search_unreachable 1000 cached_service [''MCLONGHM'']
               ''2025-07-01'' None 1 1 (Some ''100-200'') (Some ''USD'') None False True)) \<noteq> []
   \<and> map_of (req_fields (last (snd (snd (search_hotel_offers search_unreachable 1000
        cached_service [''MCLONGHM''] ''2025-07-01'' None 1 1 (Some ''100-200'') (Some ''USD'')
        None False True))))) ''priceRange'' = Some (PStr ''100-200'')
   \<and> map_of (req_fields (last (snd (snd (search_hotel_offers search_unreachable 1000
        cached_service [''MCLONGHM''] ''2025-07-01'' None 1 1 (Some ''100-200'') (Some ''USD'')
        None False True))))) ''currency'' = Some (PStr ''USD'')
   \<and> snd (snd (search_hotel_offers search_unreachable 1000 cached_service [''MCLONGHM'']
               ''2025-07-01'' None 1 1 (Some ''100-200'') None None False True)) \<noteq> []
   \<and> map_of (req_fields (last (snd (snd (search_hotel_offers search_unreachable 1000
        cached_service [''MCLONGHM''] ''2025-07-01'' None 1 1 (Some ''100-200'') None
        None False True))))) ''priceRange'' = None
   \<and> map_of (req_fields (last (snd (snd (search_hotel_offers search_unreachable 1000
        cached_service [''MCLONGHM''] ''2025-07-01'' None 1 1 (Some ''100-200'') None
        None False True))))) ''currency'' = None"
  using price_range_attached_iff_currency
          [OF ensure_token_cached_service,
           where http = search_unreachable
             and hotel_ids = "[''MCLONGHM'']" and check_in_date = "''2025-07-01''"
             and check_out_date = None and adults = 1 and room_quantity = 1
             and price_range = "Some ''100-200''" and currency = "Some ''USD''"
             and board_type = None and include_closed = False and best_rate_only = True]
        price_range_attached_iff_currency
          [OF ensure_token_cached_service,
           where http = search_unreachable
             and hotel_ids = "[''MCLONGHM'']" and check_in_date = "''2025-07-01''"
             and check_out_date = None and adults = 1 and room_quantity = 1
             and price_range = "Some ''100-200''" and currency = None
             and board_type = None and include_closed = False and best_rate_only = True]
  by (auto simp: given_def)

text \<open>
  C8, as the code has it. Every call of \<open>search_hotel_offers\<close> that obtains a token
  sends, after the requests of the token step, exactly one request: a GET to the
  hotel-offers endpoint. Its query always carries \<open>bestRateOnly\<close>, as \<open>"true"\<close> or
  \<open>"false"\<close> after the argument. It carries \<open>includeClosed\<close> only when
  \<open>include_closed\<close> is true, as \<open>"true"\<close>; when \<open>include_closed\<close> is false the
  parameter is left out. A call that obtains no token sends no query.
\<close>

theorem boolean_params_serialized:
  assumes "ensure_token http current_time s = (token, s', sent)"
  shows "(truthy token \<longrightarrow>
           (\<exists>rq. snd (snd (search_hotel_offers http current_time s hotel_ids check_in_date
                     check_out_date adults room_quantity price_range currency board_type
                     include_closed best_rate_only)) = sent @ [rq]
              \<and> req_method rq = GET \<and> req_url rq = HOTEL_OFFERS_ENDPOINT
              \<and> map_of (req_fields rq) ''bestRateOnly''
                    = Some (PStr (if best_rate_only then ''true'' else ''false''))
              \<and> map_of (req_fields rq) ''includeClosed''
                    = (if include_closed then Some (PStr ''true'') else None)))
       \<and> (\<not> truthy token \<longrightarrow>
            snd (snd (search_hotel_offers http current_time s hotel_ids check_in_date
                     check_out_date adults room_quantity price_range currency board_type
                     include_closed best_rate_only)) = sent)
       \<and> (\<forall>r \<in> set sent. req_url r = AUTH_ENDPOINT)"
proof (intro conjI impI)
  let ?params = "hotel_offers_params hotel_ids check_in_date check_out_date adults
                   room_quantity price_range currency board_type include_closed best_rate_only"
  let ?rq = "get_request HOTEL_OFFERS_ENDPOINT token ?params"
  assume tok: "truthy token"
  have log: "snd (snd (search_hotel_offers http current_time s hotel_ids check_in_date
                     check_out_date adults room_quantity price_range currency board_type
                     include_closed best_rate_only)) = sent @ [?rq]"
    using tok by (simp add: search_hotel_offers_log [OF assms])
  have m: "req_method ?rq = GET" and u: "req_url ?rq = HOTEL_OFFERS_ENDPOINT"
    and f: "req_fields ?rq = ?params"
    by (simp_all add: get_request_def)
  have flags: "map_of (req_fields ?rq) ''bestRateOnly''
                    = Some (PStr (if best_rate_only then ''true'' else ''false''))
              \<and> map_of (req_fields ?rq) ''includeClosed''
                    = (if include_closed then Some (PStr ''true'') else None)"
    unfolding f by (rule flag_params)
  from log m u flags
  show "\<exists>rq. snd (snd (search_hotel_offers http current_time s hotel_ids check_in_date
                     check_out_date adults room_quantity price_range currency board_type
                     include_closed best_rate_only)) = sent @ [rq]
              \<and> req_method rq = GET \<and> req_url rq = HOTEL_OFFERS_ENDPOINT
              \<and> map_of (req_fields rq) ''bestRateOnly''
                    = Some (PStr (if best_rate_only then ''true'' else ''false''))
              \<and> map_of (req_fields rq) ''includeClosed''
                    = (if include_closed then Some (PStr ''true'') else None)"
    by blast
next
  assume "\<not> truthy token"
  then show "snd (snd (search_hotel_offers http current_time s hotel_ids check_in_date
                     check_out_date adults room_quantity price_range currency board_type
                     include_closed best_rate_only)) = sent"
    by (simp add: search_hotel_offers_log [OF assms])
next
  show "\<forall>r \<in> set sent. req_url r = AUTH_ENDPOINT"
    using ensure_token_log_urls [of _ http current_time s] assms by simp
qed

theorem boolean_params_serialized_witness:
  "snd (snd (search_hotel_offers search_unreachable 1000 cached_service [''MCLONGHM'']
               ''2025-07-01'' None 1 1 None None None True False)) \<noteq> []
   \<and> map_of (req_fields (last (snd (snd (search_hotel_offers search_unreachable 1000
        cached_service [''MCLONGHM''] ''2025-07-01'' None 1 1 None None None True False)))))
      ''bestRateOnly'' = Some (PStr ''false'')
   \<and> map_of (req_fields (last (snd (snd (search_hotel_offers search_unreachable 1000
        cached_service [''MCLONGHM''] ''2025-07-01'' None 1 1 None None None True False)))))
      ''includeClosed'' = Some (PStr ''true'')
   \<and> snd (snd (search_hotel_offers search_unreachable 1000 cached_service [''MCLONGHM'']
               ''2025-07-01'' None 1 1 None None None False True)) \<noteq> []
   \<and> map_of (req_fields (last (snd (snd (search_hotel_offers search_unreachable 1000
        cached_service [''MCLONGHM''] ''2025-07-01'' None 1 1 None None None False True)))))
      ''bestRateOnly'' = Some (PStr ''true'')
   \<and> map_of (req_fields (last (snd (snd (search_hotel_offers search_unreachable 1000
        cached_service [''MCLONGHM''] ''2025-07-01'' None 1 1 None None None False True)))))
      ''includeClosed'' = None"
  using boolean_params_serialized
          [OF ensure_token_cached_service,
           where http = search_unreachable
             and hotel_ids = "[''MCLONGHM'']" and check_in_date = "''2025-07-01''"
             and check_out_date = None and adults = 1 and room_quantity = 1
             and price_range = None and currency = None
             and board_type = None and include_closed = True and best_rate_only = False]
        boolean_params_serialized
          [OF ensure_token_cached_service,
           where http = search_unreachable
             and hotel_ids = "[''MCLONGHM'']" and check_in_date = "''2025-07-01''"
             and check_out_date = None and adults = 1 and room_quantity = 1
             and price_range = None and currency = None
             and board_type = None and include_closed = False and best_rate_only = True]
  by auto

text \<open>
  C8 as stated fails: a call with \<open>include_closed = False\<close> sends a query with no
  \<open>includeClosed\<close> parameter at all, so not the literal \<open>"false"\<close>.
\<close>

theorem include_closed_false_omitted:
  "snd (snd (search_hotel_offers search_unreachable 1000 cached_service [''MCLONGHM'']
               ''2025-07-01'' None 1 1 None None None False True))
     = [get_request HOTEL_OFFERS_ENDPOINT (JStr ''abc'')
          (hotel_offers_params [''MCLONGHM''] ''2025-07-01'' None 1 1 None None None False True)]
   \<and> map_of (hotel_offers_params [''MCLONGHM''] ''2025-07-01'' None 1 1 None None None False True)
        ''includeClosed'' \<noteq> Some (PStr ''false'')"
  by (simp add: sample_offers_log hotel_offers_params_def given_def)

section \<open>Properties of the city lookup\<close>

lemma hotel_ids_nonempty: "\<forall>(k, ids) \<in> set HOTEL_ID_MAPPING. length ids = 2"
  by (simp add: HOTEL_ID_MAPPING_def)

lemma city_codes_three_letters: "\<forall>(k, code) \<in> set CITY_CODE_MAPPING. length code = 3"
  by (simp add: CITY_CODE_MAPPING_def)

lemma hotel_ids_for_known:
  assumes "city_key city \<in> fst ` set HOTEL_ID_MAPPING"
  shows "length (hotel_ids_for city) = 2"
proof -
  from assms obtain ids where m: "map_of HOTEL_ID_MAPPING (city_key city) = Some ids"
    by (cases "map_of HOTEL_ID_MAPPING (city_key city)") (auto simp: map_of_eq_None_iff)
  then have "(city_key city, ids) \<in> set HOTEL_ID_MAPPING"
    by (rule map_of_SomeD)
  with hotel_ids_nonempty have "length ids = 2" by blast
  with m show ?thesis by (simp add: hotel_ids_for_def)
qed

lemma city_code_for_known:
  assumes "map_of CITY_CODE_MAPPING (city_key city) = Some code"
  shows "city_code_for city = code \<and> length code = 3"
proof -
  from assms have "(city_key city, code) \<in> set CITY_CODE_MAPPING"
    by (rule map_of_SomeD)
  with city_codes_three_letters have "length code = 3" by blast
  with assms show ?thesis by (simp add: city_code_for_def)
qed

lemma lower_char_is_lowercase_letter: "\<forall>c :: char. lower_char c = lowercase_letter c"
  by code_simp

lemma upper_char_is_uppercase_letter: "\<forall>c :: char. upper_char c = uppercase_letter c"
  by code_simp

lemma lower_char_space: "\<forall>c :: char. (lower_char c = CHR '' '') = (c = CHR '' '')"
  by code_simp

lemma lower_char_not_capital:
  "\<not> (65 \<le> (of_char (lower_char c) :: nat) \<and> (of_char (lower_char c) :: nat) \<le> 90)"
proof (cases "65 \<le> (of_char c :: nat) \<and> (of_char c :: nat) \<le> 90")
  case True
  then have "(of_char (lower_char c) :: nat) = ((of_char c :: nat) + 32) mod 256"
    by (simp add: lower_char_def Let_def)
  also have "\<dots> = (of_char c :: nat) + 32" using True by simp
  finally show ?thesis using True by simp
next
  case False
  then show ?thesis by (auto simp: lower_char_def Let_def)
qed

lemma city_key_normalised: "city_key city = normalised_name city"
proof -
  have "filter (\<lambda>c. c \<noteq> CHR '' '') (map lower_char city)
          = map lower_char (filter (\<lambda>c. c \<noteq> CHR '' '') city)"
    by (induction city) (simp_all add: lower_char_space)
  then show ?thesis
    by (simp add: city_key_def lower_def normalised_name_def lower_char_is_lowercase_letter)
qed

lemma upper_uppercased: "upper city = uppercased city"
  by (simp add: upper_def uppercased_def upper_char_is_uppercase_letter)

text \<open>
  C4, as the code has it, for a city name in ASCII. The key under which the code
  looks a name up is the name in lower case with its spaces stripped: it holds no
  space and no capital letter. The two tables are looked up separately under that
  key. A name whose key is in \<open>HOTEL_ID_MAPPING\<close> gets that table's hotel IDs, two
  of them; any other name gets the empty list. A name whose key is in
  \<open>CITY_CODE_MAPPING\<close> gets that table's code, three letters long; any other name
  gets the raw input in upper case.
\<close>

theorem city_resolution:
  assumes "is_ascii city"
  shows "city_key city = normalised_name city
   \<and> CHR '' '' \<notin> set (city_key city)
   \<and> (\<forall>c \<in> set (city_key city). \<not> (65 \<le> (of_char c :: nat) \<and> (of_char c :: nat) \<le> 90))
   \<and> (normalised_name city \<in> fst ` set HOTEL_ID_MAPPING \<longrightarrow>
        map_of HOTEL_ID_MAPPING (normalised_name city) = Some (hotel_ids_for city)
        \<and> length (hotel_ids_for city) = 2)
   \<and> (normalised_name city \<notin> fst ` set HOTEL_ID_MAPPING \<longrightarrow> hotel_ids_for city = [])
   \<and> (\<forall>code. map_of CITY_CODE_MAPPING (normalised_name city) = Some code \<longrightarrow>
        city_code_for city = code \<and> length code = 3)
   \<and> (normalised_name city \<notin> fst ` set CITY_CODE_MAPPING \<longrightarrow>
        city_code_for city = uppercased city)"
proof (intro conjI impI allI ballI)
  show key: "city_key city = normalised_name city" by (rule city_key_normalised)
  show "CHR '' '' \<notin> set (city_key city)" by (simp add: city_key_def)
  {
    fix c assume "c \<in> set (city_key city)"
    then obtain c' where "c = lower_char c'"
      by (auto simp: city_key_def lower_def)
    then show "\<not> (65 \<le> (of_char c :: nat) \<and> (of_char c :: nat) \<le> 90)"
      using lower_char_not_capital by blast
  }
  {
    assume k: "normalised_name city \<in> fst ` set HOTEL_ID_MAPPING"
    then have k': "city_key city \<in> fst ` set HOTEL_ID_MAPPING" by (simp add: key)
    then show "length (hotel_ids_for city) = 2" by (rule hotel_ids_for_known)
    from k show "map_of HOTEL_ID_MAPPING (normalised_name city) = Some (hotel_ids_for city)"
      by (cases "map_of HOTEL_ID_MAPPING (normalised_name city)")
         (auto simp: map_of_eq_None_iff hotel_ids_for_def key)
  }
  {
    assume "normalised_name city \<notin> fst ` set HOTEL_ID_MAPPING"
    then have "map_of HOTEL_ID_MAPPING (city_key city) = None"
      by (simp add: map_of_eq_None_iff key)
    then show "hotel_ids_for city = []" by (simp add: hotel_ids_for_def)
  }
  {
    fix code assume "map_of CITY_CODE_MAPPING (normalised_name city) = Some code"
    then have "map_of CITY_CODE_MAPPING (city_key city) = Some code" by (simp add: key)
    then have "city_code_for city = code \<and> length code = 3" by (rule city_code_for_known)
    then show "city_code_for city = code" and "length code = 3" by simp_all
  }
  {
    assume "normalised_name city \<notin> fst ` set CITY_CODE_MAPPING"
    then have "map_of CITY_CODE_MAPPING (city_key city) = None"
      by (simp add: map_of_eq_None_iff key)
    then show "city_code_for city = uppercased city"
      by (simp add: city_code_for_def upper_uppercased)
  }
qed

lemma normalised_New_York: "normalised_name ''New York'' = ''newyork''"
  by code_simp

lemma normalised_Atlantis: "normalised_name ''Atlantis'' = ''atlantis''"
  by code_simp

lemma uppercased_Atlantis: "uppercased ''Atlantis'' = ''ATLANTIS''"
  by code_simp

lemma is_ascii_New_York: "is_ascii ''New York''"
  by code_simp

lemma is_ascii_Atlantis: "is_ascii ''Atlantis''"
  by code_simp

theorem city_resolution_witness:
  "is_ascii ''New York'' \<and> is_ascii ''Atlantis''
   \<and> city_key ''New York'' = ''newyork''
   \<and> hotel_ids_for ''New York'' = [''NYNYCTSC'', ''NYCNYCHM'']
   \<and> city_code_for ''New York'' = ''NYC''
   \<and> city_key ''Atlantis'' = ''atlantis''
   \<and> hotel_ids_for ''Atlantis'' = []
   \<and> city_code_for ''Atlantis'' = ''ATLANTIS''"
  using city_resolution [OF is_ascii_New_York] city_resolution [OF is_ascii_Atlantis]
  by (simp add: is_ascii_New_York is_ascii_Atlantis normalised_New_York normalised_Atlantis
        uppercased_Atlantis HOTEL_ID_MAPPING_def CITY_CODE_MAPPING_def)

lemma city_key_berlin: "city_key ''berlin'' = ''berlin''"
  by code_simp

text \<open>
  C4 as stated fails: \<open>berlin\<close> is an alias of the city-code table with the code
  \<open>BER\<close>, and its hotel-ID list is empty.
\<close>

theorem berlin_has_code_but_no_hotels:
  "map_of CITY_CODE_MAPPING (city_key ''berlin'') = Some ''BER''
   \<and> city_code_for ''berlin'' = ''BER''
   \<and> hotel_ids_for ''berlin'' = []"
  by (simp add: city_key_berlin city_code_for_def hotel_ids_for_def
        CITY_CODE_MAPPING_def HOTEL_ID_MAPPING_def)

section \<open>Properties of the dates\<close>













section \<open>Properties of the tool's provider call\<close>












section \<open>Properties of the formatted text\<close>

lemma format_offers_nth:
  "j < length offers \<Longrightarrow>
   \<exists>pre post. format_offers k offers = pre @ format_offer (k + j) (offers ! j) @ post"
proof (induction offers arbitrary: k j)
  case Nil
  then show ?case by simp
next
  case (Cons offer rest)
  show ?case
  proof (cases j)
    case 0
    have "format_offers k (offer # rest)
            = [] @ format_offer (k + 0) ((offer # rest) ! 0) @ format_offers (k + 1) rest"
      by simp
    with 0 show ?thesis by blast
  next
    case (Suc j')
    with Cons.prems have "j' < length rest" by simp
    from Cons.IH [OF this, of "k + 1"] obtain pre post
      where "format_offers (k + 1) rest = pre @ format_offer (k + 1 + j') (rest ! j') @ post"
      by blast
    then have "format_offers k (offer # rest)
            = (format_offer k offer @ pre) @ format_offer (k + j) ((offer # rest) ! j) @ post"
      using Suc by simp
    then show ?thesis by blast
  qed
qed

lemma format_hotels_nth:
  "i < length hotels \<Longrightarrow>
   \<exists>pre post. format_hotels k n hotels = pre @ format_hotel (k + i) n (hotels ! i) @ post"
proof (induction hotels arbitrary: k i)
  case Nil
  then show ?case by simp
next
  case (Cons hotel rest)
  show ?case
  proof (cases i)
    case 0
    have "format_hotels k n (hotel # rest)
            = [] @ format_hotel (k + 0) n ((hotel # rest) ! 0) @ format_hotels (k + 1) n rest"
      by simp
    with 0 show ?thesis by blast
  next
    case (Suc i')
    with Cons.prems have "i' < length rest" by simp
    from Cons.IH [OF this, of "k + 1"] obtain pre post
      where "format_hotels (k + 1) n rest = pre @ format_hotel (k + 1 + i') n (rest ! i') @ post"
      by blast
    then have "format_hotels k n (hotel # rest)
            = (format_hotel k n hotel @ pre) @ format_hotel (k + i) n ((hotel # rest) ! i) @ post"
      using Suc by simp
    then show ?thesis by blast
  qed
qed

lemma format_offer_shape:
  "\<exists>mid post. format_offer j offer =
     ''  Offer '' @ str_nat (j + 1) @ '':'' @ mid
     @ ''  - Description: '' @ take 100 (or_default (o_description offer) ''No description'')
     @ (if 100 < length (or_default (o_description offer) ''No description'') then ''...'' else [])
     @ ''\<newline>  - Price: '' @ or_default (o_total offer) ''Unknown'' @ '' ''
     @ or_default (o_currency offer) ''EUR'' @ post"
proof -
  have "format_offer j offer =
     ''  Offer '' @ str_nat (j + 1) @ '':''
     @ (''\<newline>  - Room Type: '' @ or_default (o_room_type offer) ''Unknown'' @ ''\<newline>'')
     @ ''  - Description: '' @ take 100 (or_default (o_description offer) ''No description'')
     @ (if 100 < length (or_default (o_description offer) ''No description'') then ''...'' else [])
     @ ''\<newline>  - Price: '' @ or_default (o_total offer) ''Unknown'' @ '' ''
     @ or_default (o_currency offer) ''EUR''
     @ (''\<newline>  - Payment Type: '' @ or_default (o_payment_type offer) ''Unknown''
        @ ''\<newline>  - Cancellation Policy: ''
        @ or_default (o_cancellation offer) ''No cancellation policy information''
        @ ''\<newline>\<newline>'')"
    by (simp add: format_offer_def Let_def)
  then show ?thesis by blast
qed

lemma format_hotel_available:
  assumes "or_default (h_available hotel) False"
  shows "format_hotel i n hotel =
     ''Hotel '' @ str_nat (i + 1) @ '': '' @ or_default (h_name hotel) ''Unknown Hotel''
     @ ('' ('' @ or_default (h_id hotel) ''Unknown ID'' @ '')\<newline>City Code: ''
        @ or_default (h_city_code hotel) [] @ ''\<newline>Found ''
        @ str_nat (length (or_default (h_offers hotel) [])) @ '' offers:\<newline>'')
     @ format_offers 0 (or_default (h_offers hotel) [])
     @ (if int i < int n - 1 then ''---\<newline>\<newline>'' else [])"
  using assms by (simp add: format_hotel_def Let_def)

lemma format_hotel_sold_out:
  assumes "\<not> or_default (h_available hotel) False"
  shows "format_hotel i n hotel =
     ''Hotel '' @ str_nat (i + 1) @ '': '' @ or_default (h_name hotel) ''Unknown Hotel''
     @ '' ('' @ or_default (h_id hotel) ''Unknown ID'' @ '')\<newline>City Code: ''
     @ or_default (h_city_code hotel) [] @ ''\<newline>Status: Sold out\<newline>\<newline>''"
  using assms by (simp add: format_hotel_def Let_def)

text \<open>
  C9, as the code has it. For every hotel record marked available and every offer
  of it, the text holds, in this order: the label \<open>Hotel i+1:\<close> and the hotel's
  name; the label \<open>Offer j+1:\<close>; the room description cut to its first 100
  characters, followed by \<open>...\<close> exactly when the description is longer than 100;
  the total price and the currency code. Hotels and offers are counted from 1. A
  hotel record that is not marked available is rendered by its label, name, id,
  city code and \<open>Status: Sold out\<close>, without its offers.
\<close>

theorem offers_formatted_in_order:
  assumes "i < length hotels"
    and "h_available (hotels ! i) = Some True"
    and "h_offers (hotels ! i) = Some offers"
    and "j < length offers"
  shows "(\<exists>pre mid mid' post.
           search_hotels_text city check_in_date check_out_date hotels =
             pre @ ''Hotel '' @ str_nat (i + 1) @ '': ''
                 @ or_default (h_name (hotels ! i)) ''Unknown Hotel''
             @ mid @ ''  Offer '' @ str_nat (j + 1) @ '':''
             @ mid' @ ''  - Description: ''
                 @ take 100 (or_default (o_description (offers ! j)) ''No description'')
                 @ (if 100 < length (or_default (o_description (offers ! j)) ''No description'')
                    then ''...'' else [])
             @ ''\<newline>  - Price: '' @ or_default (o_total (offers ! j)) ''Unknown'' @ '' ''
                 @ or_default (o_currency (offers ! j)) ''EUR''
             @ post)
       \<and> length (take 100 (or_default (o_description (offers ! j)) ''No description'')) \<le> 100
       \<and> (\<forall>i' n hotel. \<not> or_default (h_available hotel) False \<longrightarrow>
            format_hotel i' n hotel =
              ''Hotel '' @ str_nat (i' + 1) @ '': '' @ or_default (h_name hotel) ''Unknown Hotel''
              @ '' ('' @ or_default (h_id hotel) ''Unknown ID'' @ '')\<newline>City Code: ''
              @ or_default (h_city_code hotel) [] @ ''\<newline>Status: Sold out\<newline>\<newline>'')"
proof (intro conjI allI impI)
  let ?h = "hotels ! i"
  let ?o = "offers ! j"
  let ?n = "length hotels"
  from format_hotels_nth [OF assms(1), of 0 ?n] obtain p1 q1
    where hs: "format_hotels 0 ?n hotels = p1 @ format_hotel i ?n ?h @ q1"
    by auto
  from format_offers_nth [OF assms(4), of 0] obtain p2 q2
    where os: "format_offers 0 offers = p2 @ format_offer j ?o @ q2"
    by auto
  from format_offer_shape [of j ?o] obtain m3 q3
    where o: "format_offer j ?o =
       ''  Offer '' @ str_nat (j + 1) @ '':'' @ m3
       @ ''  - Description: '' @ take 100 (or_default (o_description ?o) ''No description'')
       @ (if 100 < length (or_default (o_description ?o) ''No description'') then ''...'' else [])
       @ ''\<newline>  - Price: '' @ or_default (o_total ?o) ''Unknown'' @ '' ''
       @ or_default (o_currency ?o) ''EUR'' @ q3"
    by blast
  have av: "or_default (h_available ?h) False" and ofs: "or_default (h_offers ?h) [] = offers"
    using assms(2,3) by (simp_all add: or_default_def)
  let ?head = "''Found '' @ str_nat ?n @ '' hotels in '' @ city @ '' from ''
       @ check_in_date @ '' to '' @ check_out_date @ '':\<newline>\<newline>''"
  let ?mid = "'' ('' @ or_default (h_id ?h) ''Unknown ID'' @ '')\<newline>City Code: ''
        @ or_default (h_city_code ?h) [] @ ''\<newline>Found ''
        @ str_nat (length offers) @ '' offers:\<newline>''"
  let ?tail = "(if int i < int ?n - 1 then ''---\<newline>\<newline>'' else [])"
  have "search_hotels_text city check_in_date check_out_date hotels =
          (?head @ p1) @ ''Hotel '' @ str_nat (i + 1) @ '': ''
              @ or_default (h_name ?h) ''Unknown Hotel''
          @ (?mid @ p2) @ ''  Offer '' @ str_nat (j + 1) @ '':''
          @ m3 @ ''  - Description: ''
              @ take 100 (or_default (o_description ?o) ''No description'')
              @ (if 100 < length (or_default (o_description ?o) ''No description'')
                 then ''...'' else [])
          @ ''\<newline>  - Price: '' @ or_default (o_total ?o) ''Unknown'' @ '' ''
              @ or_default (o_currency ?o) ''EUR''
          @ (q3 @ q2 @ ?tail @ q1)"
    unfolding search_hotels_text_def hs format_hotel_available [OF av] ofs os o
    by (simp only: append_assoc)
  then show "\<exists>pre mid mid' post.
           search_hotels_text city check_in_date check_out_date hotels =
             pre @ ''Hotel '' @ str_nat (i + 1) @ '': ''
                 @ or_default (h_name (hotels ! i)) ''Unknown Hotel''
             @ mid @ ''  Offer '' @ str_nat (j + 1) @ '':''
             @ mid' @ ''  - Description: ''
                 @ take 100 (or_default (o_description (offers ! j)) ''No description'')
                 @ (if 100 < length (or_default (o_description (offers ! j)) ''No description'')
                    then ''...'' else [])
             @ ''\<newline>  - Price: '' @ or_default (o_total (offers ! j)) ''Unknown'' @ '' ''
                 @ or_default (o_currency (offers ! j)) ''EUR''
             @ post"
    by blast
next
  show "length (take 100 (or_default (o_description (offers ! j)) ''No description'')) \<le> 100"
    by simp
next
  fix i' n and hotel :: hotel_data
  assume "\<not> or_default (h_available hotel) False"
  then show "format_hotel i' n hotel =
              ''Hotel '' @ str_nat (i' + 1) @ '': '' @ or_default (h_name hotel) ''Unknown Hotel''
              @ '' ('' @ or_default (h_id hotel) ''Unknown ID'' @ '')\<newline>City Code: ''
              @ or_default (h_city_code hotel) [] @ ''\<newline>Status: Sold out\<newline>\<newline>''"
    by (rule format_hotel_sold_out)
qed

lemma str_nat_one: "str_nat (Suc 0) = ''1''"
  by code_simp

theorem offers_formatted_in_order_witness:
  "\<exists>pre mid mid' post.
     search_hotels_text ''London'' ''2025-07-01'' ''2025-07-02'' [open_hotel] =
       pre @ ''Hotel 1: Grand'' @ mid @ ''  Offer 1:'' @ mid'
       @ ''  - Description: Sea view\<newline>  - Price: 250.00 GBP'' @ post"
  using offers_formatted_in_order
          [where hotels = "[open_hotel]" and i = 0 and j = 0 and offers = "[sea_view_offer]"
             and city = "''London''" and check_in_date = "''2025-07-01''"
             and check_out_date = "''2025-07-02''"]
  by (simp add: open_hotel_def sea_view_offer_def or_default_def str_nat_one
        del: str_nat.simps)

text \<open>
  C9 as stated fails: a hotel record that is not available is formatted without
  its offers, so the text does not contain the room description it carries.
\<close>

theorem sold_out_hotel_shows_no_offer:
  "h_offers sold_out_hotel = Some [sea_view_offer]
   \<and> o_description sea_view_offer = Some ''Sea view''
   \<and> \<not> sublist ''Sea view''
         (search_hotels_text ''London'' ''2025-07-01'' ''2025-07-02'' [sold_out_hotel])"
  by code_simp

end
